theory Spec2Isabelle
  imports Main "HOL-Library.Word" "HOL-Library.Monad_Syntax"
begin

unbundle bit_operations_syntax

section \<open>Constants of the driver\<close>

type_synonym byte = "8 word"

text \<open>The SPI command bytes of \<^verbatim>\<open>mcp2515.h\<close>.\<close>

definition SPI_RESET :: byte where "SPI_RESET = 0xC0"
definition SPI_READ :: byte where "SPI_READ = 0x03"
definition SPI_READ_RX :: byte where "SPI_READ_RX = 0x90"
definition SPI_WRITE :: byte where "SPI_WRITE = 0x02"
definition SPI_WRITE_RX :: byte where "SPI_WRITE_RX = 0x40"
definition SPI_RTS :: byte where "SPI_RTS = 0x80"
definition SPI_READ_STATUS :: byte where "SPI_READ_STATUS = 0xA0"
definition SPI_RX_STATUS :: byte where "SPI_RX_STATUS = 0xB0"
definition SPI_BIT_MODIFY :: byte where "SPI_BIT_MODIFY = 0x05"

text \<open>The pin numbers and the filler byte of \<^verbatim>\<open>mcp2515.c\<close>.\<close>

definition CHIP_SELECT :: nat where "CHIP_SELECT = 2"
definition INTERRUPT_LOW :: nat where "INTERRUPT_LOW = 2"
definition SERIAL_CLK :: nat where "SERIAL_CLK = 5"
definition MOSI :: nat where "MOSI = 4"
definition MISO :: nat where "MISO = 3"
definition FILLER :: byte where "FILLER = 0xFF"

text \<open>
  Bit positions of the SPI control and status registers. The driver takes them from
  \<^verbatim>\<open>avr/io.h\<close>, a header of the toolchain; the values are those of the ATmega328P.
  The register address \<^verbatim>\<open>CNF3\<close> and the bit number \<^verbatim>\<open>PHSEG21\<close> used by
  \<^verbatim>\<open>initController\<close> are defined nowhere in the repository, so the model of
  \<^verbatim>\<open>initController\<close> takes them as parameters.
\<close>

definition SPIF :: nat where "SPIF = 7"
definition SPE :: nat where "SPE = 6"
definition DORD :: nat where "DORD = 5"
definition MSTR :: nat where "MSTR = 4"
definition SPR1 :: nat where "SPR1 = 1"
definition SPR0 :: nat where "SPR0 = 0"

section \<open>The microcontroller and the hardware around it\<close>

text \<open>
  The port, direction and SPI control registers are latches: a read gives the value last
  written. \<^verbatim>\<open>PIND\<close> is the input register of port D; the driver only reads it.
\<close>

datatype ioreg = PORTB | DDRB | PORTD | DDRD | PIND | SPCR

text \<open>
  The SPI data and status registers belong to the SPI peripheral: what a read of them
  gives is decided by the hardware (the peripheral, the bus and the chip on it), which the
  driver does not contain. The hardware is a parameter of every operation: a state of
  type \<open>'h\<close> and its reactions to the driver's accesses. A read of \<^verbatim>\<open>SPSR\<close> or
  \<^verbatim>\<open>SPDR\<close> is volatile, so it also gives the hardware's next state.
\<close>

record 'h bus =
  latch :: "ioreg \<Rightarrow> byte \<Rightarrow> 'h \<Rightarrow> 'h"
  put_SPDR :: "byte \<Rightarrow> 'h \<Rightarrow> 'h"
  put_SPSR :: "byte \<Rightarrow> 'h \<Rightarrow> 'h"
  get_SPSR :: "'h \<Rightarrow> byte \<times> 'h"
  get_SPDR :: "'h \<Rightarrow> byte \<times> 'h"
  elapse :: "nat \<Rightarrow> 'h \<Rightarrow> 'h"

text \<open>
  What the driver does that can be seen from outside, in order: a store to a latch
  register, a store to \<^verbatim>\<open>SPSR\<close>, a completed call of \<^verbatim>\<open>sendData\<close> (byte sent, byte
  received), a blocking delay in microseconds.
\<close>

datatype event = Store ioreg byte | Store_SPSR byte | Exchange byte byte | Delay_us nat

record 'h mcu =
  regs :: "ioreg \<Rightarrow> byte"
  env :: 'h
  trace :: "event list"

definition write_reg :: "'h bus \<Rightarrow> ioreg \<Rightarrow> byte \<Rightarrow> 'h mcu \<Rightarrow> 'h mcu" where
  "write_reg hw r v s =
     s\<lparr>regs := (regs s)(r := v), env := latch hw r v (env s), trace := trace s @ [Store r v]\<rparr>"

text \<open>
  The compound assignments \<^verbatim>\<open>R &= m\<close> and \<^verbatim>\<open>R |= m\<close>. C computes them on
  \<^verbatim>\<open>int\<close> and stores the low byte, which is the 8-bit operation.
\<close>

definition and_reg :: "'h bus \<Rightarrow> ioreg \<Rightarrow> byte \<Rightarrow> 'h mcu \<Rightarrow> 'h mcu" where
  "and_reg hw r m s = write_reg hw r (regs s r AND m) s"

definition or_reg :: "'h bus \<Rightarrow> ioreg \<Rightarrow> byte \<Rightarrow> 'h mcu \<Rightarrow> 'h mcu" where
  "or_reg hw r m s = write_reg hw r (regs s r OR m) s"

definition write_SPSR :: "'h bus \<Rightarrow> byte \<Rightarrow> 'h mcu \<Rightarrow> 'h mcu" where
  "write_SPSR hw v s = s\<lparr>env := put_SPSR hw v (env s), trace := trace s @ [Store_SPSR v]\<rparr>"

definition delay_us :: "'h bus \<Rightarrow> nat \<Rightarrow> 'h mcu \<Rightarrow> 'h mcu" where
  "delay_us hw n s = s\<lparr>env := elapse hw n (env s), trace := trace s @ [Delay_us n]\<rparr>"

section \<open>The driver\<close>

text \<open>
  \<^verbatim>\<open>messageReceived\<close>: \<^verbatim>\<open>return !(PIND & (1<<INTERRUPT_LOW));\<close> The state is
  returned with the result, as for the other operations.
\<close>

definition messageReceived :: "'h mcu \<Rightarrow> byte \<times> 'h mcu" where
  "messageReceived s =
     ((if regs s PIND AND push_bit INTERRUPT_LOW 1 = 0 then 1 else 0), s)"

text \<open>
  The loop \<^verbatim>\<open>while (!(SPSR & (1<<SPIF))) {;}\<close> of \<^verbatim>\<open>sendData\<close>: each round reads
  \<^verbatim>\<open>SPSR\<close> once. It has no bound, so it is a partial function: \<open>None\<close> is the loop
  that never ends.
\<close>

partial_function (option) await_SPIF :: "'h bus \<Rightarrow> 'h \<Rightarrow> 'h option" where
  "await_SPIF hw h =
     (case get_SPSR hw h of
        (v, h') \<Rightarrow> if v AND push_bit SPIF 1 = 0 then await_SPIF hw h' else Some h')"

definition sendData :: "'h bus \<Rightarrow> byte \<Rightarrow> 'h mcu \<Rightarrow> (byte \<times> 'h mcu) option" where
  "sendData hw data s = do {
     h \<leftarrow> await_SPIF hw (put_SPDR hw data (env s));
     let (r, h') = get_SPDR hw h;
     Some (r, s\<lparr>env := h', trace := trace s @ [Exchange data r]\<rparr>)
   }"

definition writeToRegister :: "'h bus \<Rightarrow> byte \<Rightarrow> byte \<Rightarrow> 'h mcu \<Rightarrow> 'h mcu option" where
  "writeToRegister hw address data s0 = do {
     let s1 = and_reg hw PORTB (NOT (push_bit CHIP_SELECT 1)) s0;
     (_, s2) \<leftarrow> sendData hw SPI_WRITE s1;
     (_, s3) \<leftarrow> sendData hw address s2;
     (_, s4) \<leftarrow> sendData hw data s3;
     Some (or_reg hw PORTB (push_bit CHIP_SELECT 1) s4)
   }"

definition readRegister :: "'h bus \<Rightarrow> byte \<Rightarrow> 'h mcu \<Rightarrow> (byte \<times> 'h mcu) option" where
  "readRegister hw address s0 = do {
     let s1 = and_reg hw PORTB (NOT (push_bit CHIP_SELECT 1)) s0;
     (_, s2) \<leftarrow> sendData hw SPI_READ s1;
     (_, s3) \<leftarrow> sendData hw address s2;
     (data, s4) \<leftarrow> sendData hw FILLER s3;
     Some (data, or_reg hw PORTB (push_bit CHIP_SELECT 1) s4)
   }"

definition bitModify :: "'h bus \<Rightarrow> byte \<Rightarrow> byte \<Rightarrow> byte \<Rightarrow> 'h mcu \<Rightarrow> 'h mcu option" where
  "bitModify hw address msk data s0 = do {
     let s1 = and_reg hw PORTB (NOT (push_bit CHIP_SELECT 1)) s0;
     (_, s2) \<leftarrow> sendData hw SPI_BIT_MODIFY s1;
     (_, s3) \<leftarrow> sendData hw address s2;
     (_, s4) \<leftarrow> sendData hw msk s3;
     (_, s5) \<leftarrow> sendData hw data s4;
     Some (or_reg hw PORTB (push_bit CHIP_SELECT 1) s5)
   }"

definition readStatus :: "'h bus \<Rightarrow> byte \<Rightarrow> 'h mcu \<Rightarrow> (byte \<times> 'h mcu) option" where
  "readStatus hw readType s0 = do {
     let s1 = and_reg hw PORTB (NOT (push_bit CHIP_SELECT 1)) s0;
     (_, s2) \<leftarrow> sendData hw readType s1;
     (data, s3) \<leftarrow> sendData hw FILLER s2;
     Some (data, or_reg hw PORTB (push_bit CHIP_SELECT 1) s3)
   }"

definition resetController :: "'h bus \<Rightarrow> 'h mcu \<Rightarrow> 'h mcu option" where
  "resetController hw s0 = do {
     let s1 = and_reg hw PORTB (NOT (push_bit CHIP_SELECT 1)) s0;
     (_, s2) \<leftarrow> sendData hw SPI_RESET s1;
     Some (or_reg hw PORTB (push_bit CHIP_SELECT 1) s2)
   }"

text \<open>
  \<^verbatim>\<open>initController\<close>. After the third \<^verbatim>\<open>sendData\<close> the source has no store to
  \<^verbatim>\<open>PORTB\<close>; it reads \<^verbatim>\<open>SPDR\<close> once more and returns that byte.
\<close>

definition initController :: "'h bus \<Rightarrow> byte \<Rightarrow> nat \<Rightarrow> 'h mcu \<Rightarrow> (byte \<times> 'h mcu) option" where
  "initController hw CNF3 PHSEG21 s0 = do {
     let s1 = or_reg hw PORTB (push_bit CHIP_SELECT 1) s0;
     let s2 = or_reg hw DDRB (push_bit CHIP_SELECT 1) s1;
     let s3 = and_reg hw PORTB
                (NOT (push_bit SERIAL_CLK 1 OR push_bit MOSI 1 OR push_bit MISO 1)) s2;
     let s4 = or_reg hw DDRB (push_bit SERIAL_CLK 1 OR push_bit MOSI 1) s3;
     let s5 = and_reg hw DDRB (NOT (push_bit MISO 1)) s4;
     let s6 = and_reg hw DDRD (NOT (push_bit INTERRUPT_LOW 1)) s5;
     let s7 = or_reg hw PORTD (push_bit INTERRUPT_LOW 1) s6;
     let s8 = write_reg hw SPCR
                (push_bit SPE 1 OR push_bit DORD 0 OR push_bit MSTR 1
                 OR push_bit SPR1 0 OR push_bit SPR0 1) s7;
     let s9 = write_SPSR hw 0 s8;
     s10 \<leftarrow> resetController hw s9;
     let s11 = delay_us hw 10 s10;
     let s12 = and_reg hw PORTB (NOT (push_bit CHIP_SELECT 1)) s11;
     (_, s13) \<leftarrow> sendData hw SPI_WRITE s12;
     (_, s14) \<leftarrow> sendData hw CNF3 s13;
     (_, s15) \<leftarrow> sendData hw (push_bit PHSEG21 1) s14;
     let (r, h) = get_SPDR hw (env s15);
     Some (r, s15\<lparr>env := h\<rparr>)
   }"

text \<open>
  The two straight-line parts of \<^verbatim>\<open>initController\<close> around the reset and the delay,
  named so that facts about it can be stated part by part: the stores of lines 156 to 181,
  and the configuration write of lines 190 to 198.
\<close>

definition init_ports :: "'h bus \<Rightarrow> 'h mcu \<Rightarrow> 'h mcu" where
  "init_ports hw s0 =
    (let s1 = or_reg hw PORTB (push_bit CHIP_SELECT 1) s0;
         s2 = or_reg hw DDRB (push_bit CHIP_SELECT 1) s1;
         s3 = and_reg hw PORTB
                (NOT (push_bit SERIAL_CLK 1 OR push_bit MOSI 1 OR push_bit MISO 1)) s2;
         s4 = or_reg hw DDRB (push_bit SERIAL_CLK 1 OR push_bit MOSI 1) s3;
         s5 = and_reg hw DDRB (NOT (push_bit MISO 1)) s4;
         s6 = and_reg hw DDRD (NOT (push_bit INTERRUPT_LOW 1)) s5;
         s7 = or_reg hw PORTD (push_bit INTERRUPT_LOW 1) s6;
         s8 = write_reg hw SPCR
                (push_bit SPE 1 OR push_bit DORD 0 OR push_bit MSTR 1
                 OR push_bit SPR1 0 OR push_bit SPR0 1) s7
     in write_SPSR hw 0 s8)"

definition load_config :: "'h bus \<Rightarrow> byte \<Rightarrow> nat \<Rightarrow> 'h mcu \<Rightarrow> (byte \<times> 'h mcu) option" where
  "load_config hw CNF3 PHSEG21 s11 = do {
     let s12 = and_reg hw PORTB (NOT (push_bit CHIP_SELECT 1)) s11;
     (_, s13) \<leftarrow> sendData hw SPI_WRITE s12;
     (_, s14) \<leftarrow> sendData hw CNF3 s13;
     (_, s15) \<leftarrow> sendData hw (push_bit PHSEG21 1) s14;
     let (r, h) = get_SPDR hw (env s15);
     Some (r, s15\<lparr>env := h\<rparr>)
   }"

section \<open>When the polling loop ends\<close>

text \<open>
  \<open>polls hw n h\<close> is the hardware after \<open>n\<close> reads of \<^verbatim>\<open>SPSR\<close> from \<open>h\<close>, and
  \<open>SPIF_seen hw h n\<close> says that the next read finds the transfer-complete flag set. A bus
  is \<open>responsive\<close> when every byte loaded into \<^verbatim>\<open>SPDR\<close> is followed by such a read.
\<close>

primrec polls :: "'h bus \<Rightarrow> nat \<Rightarrow> 'h \<Rightarrow> 'h" where
  "polls hw 0 h = h"
| "polls hw (Suc n) h = polls hw n (snd (get_SPSR hw h))"

definition SPIF_seen :: "'h bus \<Rightarrow> 'h \<Rightarrow> nat \<Rightarrow> bool" where
  "SPIF_seen hw h n = (fst (get_SPSR hw (polls hw n h)) AND push_bit SPIF 1 \<noteq> 0)"

definition responsive :: "'h bus \<Rightarrow> bool" where
  "responsive hw = (\<forall>h d. \<exists>n. SPIF_seen hw (put_SPDR hw d h) n)"

section \<open>What an operation leaves alone\<close>

text \<open>
  Two contents \<open>f\<close> (before) and \<open>g\<close> (after) of the latch registers that differ at most
  in bit \<^verbatim>\<open>CHIP_SELECT\<close> of \<^verbatim>\<open>PORTB\<close>.
\<close>

definition only_chip_select_differs :: "(ioreg \<Rightarrow> byte) \<Rightarrow> (ioreg \<Rightarrow> byte) \<Rightarrow> bool" where
  "only_chip_select_differs f g =
     ((\<forall>r. r \<noteq> PORTB \<longrightarrow> g r = f r) \<and>
      (\<forall>i. i \<noteq> CHIP_SELECT \<longrightarrow> bit (g PORTB) i = bit (f PORTB) i))"

section \<open>The chip and a simulated bus\<close>

text \<open>
  Modelled from the spec: the controller chip at the other end of the bus is hardware and
  no file of the repository describes it. This is the chip of sections 4.3, 4.4 and 6 of
  the specification: a register file, and a decoder that takes the first byte after
  chip-select goes low as the opcode and the following bytes as the table of section 6
  gives them. \<open>Finished\<close> is a transaction whose bytes have all arrived; the
  specification says nothing about further bytes, and the model ignores them.
\<close>

datatype phase =
    Deselected
  | Opcode
  | Address byte
  | Write_Data byte
  | Read_Data byte
  | Mask byte
  | Modify_Data byte byte
  | Status byte
  | Finished

record chip =
  cregs :: "byte \<Rightarrow> byte"
  defaults :: "byte \<Rightarrow> byte"
  status :: "byte \<Rightarrow> byte"
  phase :: phase

text \<open>
  Modelled from the spec: the chip-select line as the chip sees it (\<open>True\<close> is the high,
  deselected level). A transaction opens when the line goes low from high.
\<close>

definition chip_select :: "bool \<Rightarrow> chip \<Rightarrow> chip" where
  "chip_select high c =
     (if high then c\<lparr>phase := Deselected\<rparr>
      else if phase c = Deselected then c\<lparr>phase := Opcode\<rparr>
      else c)"

text \<open>
  Modelled from the spec: one byte exchanged with the chip, giving the byte the chip
  sends back and the chip afterwards (table of section 6; bit-modify as in section 4.3).
\<close>

definition chip_exchange :: "byte \<Rightarrow> chip \<Rightarrow> byte \<times> chip" where
  "chip_exchange b c =
     (case phase c of
        Deselected \<Rightarrow> (0, c)
      | Opcode \<Rightarrow>
          if b = SPI_RESET then (0, c\<lparr>cregs := defaults c, phase := Finished\<rparr>)
          else if b = SPI_WRITE \<or> b = SPI_READ \<or> b = SPI_BIT_MODIFY
            then (0, c\<lparr>phase := Address b\<rparr>)
          else if b = SPI_READ_STATUS \<or> b = SPI_RX_STATUS
            then (0, c\<lparr>phase := Status b\<rparr>)
          else (0, c\<lparr>phase := Finished\<rparr>)
      | Address op \<Rightarrow>
          (0, c\<lparr>phase := (if op = SPI_WRITE then Write_Data b
                          else if op = SPI_READ then Read_Data b
                          else Mask b)\<rparr>)
      | Write_Data a \<Rightarrow> (0, c\<lparr>cregs := (cregs c)(a := b), phase := Finished\<rparr>)
      | Read_Data a \<Rightarrow> (cregs c a, c\<lparr>phase := Finished\<rparr>)
      | Mask a \<Rightarrow> (0, c\<lparr>phase := Modify_Data a b\<rparr>)
      | Modify_Data a m \<Rightarrow>
          (0, c\<lparr>cregs := (cregs c)(a := (cregs c a AND NOT m) OR (b AND m)),
                phase := Finished\<rparr>)
      | Status op \<Rightarrow> (status c op, c\<lparr>phase := Finished\<rparr>)
      | Finished \<Rightarrow> (0, c))"

text \<open>
  Modelled from the spec: the simulated bus of section 9, an SPI peripheral with the chip
  attached. A byte stored to \<^verbatim>\<open>SPDR\<close> is exchanged with the chip; the flag
  \<^verbatim>\<open>SPIF\<close> is seen after \<open>latency\<close> reads of \<^verbatim>\<open>SPSR\<close> that do not see it. The
  chip-select line is bit \<^verbatim>\<open>CHIP_SELECT\<close> of \<^verbatim>\<open>PORTB\<close>.
\<close>

record sim =
  chip :: chip
  rx :: byte
  remaining :: nat
  latency :: nat

definition sim_bus :: "sim bus" where
  "sim_bus =
     \<lparr>latch = (\<lambda>r v h.
        if r = PORTB then h\<lparr>chip := chip_select (bit v CHIP_SELECT) (chip h)\<rparr> else h),
      put_SPDR = (\<lambda>d h.
        case chip_exchange d (chip h) of
          (r, c) \<Rightarrow> h\<lparr>chip := c, rx := r, remaining := latency h\<rparr>),
      put_SPSR = (\<lambda>v h. h),
      get_SPSR = (\<lambda>h.
        if remaining h = 0 then (push_bit SPIF 1, h)
        else (0, h\<lparr>remaining := remaining h - 1\<rparr>)),
      get_SPDR = (\<lambda>h. (rx h, h)),
      elapse = (\<lambda>n h. h)\<rparr>"

text \<open>
  Modelled from the spec: the stalled bus of section 7, on which the transfer-complete
  flag never sets.
\<close>

definition stalled_bus :: "unit bus" where
  "stalled_bus =
     \<lparr>latch = (\<lambda>r v h. h),
      put_SPDR = (\<lambda>d h. h),
      put_SPSR = (\<lambda>v h. h),
      get_SPSR = (\<lambda>h. (0, h)),
      get_SPDR = (\<lambda>h. (0, h)),
      elapse = (\<lambda>n h. h)\<rparr>"

text \<open>
  A chip with every register at \<open>0xFF\<close> and no transaction open, the simulated bus around
  it with two idle polls per transfer, and a microcontroller just after power-up (all
  latches zero, the interrupt line high) on it.
\<close>

definition chip0 :: chip where
  "chip0 = \<lparr>cregs = (\<lambda>a. 0xFF), defaults = (\<lambda>a. 0), status = (\<lambda>a. 0), phase = Deselected\<rparr>"

definition sim0 :: sim where
  "sim0 = \<lparr>chip = chip0, rx = 0, remaining = 0, latency = 2\<rparr>"

definition mcu0 :: "sim mcu" where
  "mcu0 = \<lparr>regs = (\<lambda>r. if r = PIND then 0xFF else 0), env = sim0, trace = []\<rparr>"

definition stalled0 :: "unit mcu" where
  "stalled0 = \<lparr>regs = (\<lambda>r. 0), env = (), trace = []\<rparr>"

section \<open>Facts about the polling loop and the byte exchange\<close>

lemma await_SPIF_unseen:
  "\<not> SPIF_seen hw h 0 \<Longrightarrow> await_SPIF hw h = await_SPIF hw (snd (get_SPSR hw h))"
  by (subst await_SPIF.simps) (simp add: SPIF_seen_def case_prod_unfold)

lemma await_SPIF_seen:
  "SPIF_seen hw h 0 \<Longrightarrow> await_SPIF hw h = Some (snd (get_SPSR hw h))"
  by (subst await_SPIF.simps) (simp add: SPIF_seen_def case_prod_unfold)

lemma SPIF_seen_Suc: "SPIF_seen hw h (Suc n) = SPIF_seen hw (snd (get_SPSR hw h)) n"
  by (simp add: SPIF_seen_def)

lemma await_SPIF_first:
  "SPIF_seen hw h n \<Longrightarrow> (\<forall>m<n. \<not> SPIF_seen hw h m) \<Longrightarrow>
   await_SPIF hw h = Some (polls hw (Suc n) h)"
proof (induction n arbitrary: h)
  case 0
  then show ?case by (simp add: await_SPIF_seen)
next
  case (Suc n)
  from Suc.prems(2) have unseen: "\<not> SPIF_seen hw h 0" by blast
  from Suc.prems(2) have "\<forall>m<n. \<not> SPIF_seen hw (snd (get_SPSR hw h)) m"
    by (metis SPIF_seen_Suc Suc_less_eq)
  with Suc.prems(1) Suc.IH [of "snd (get_SPSR hw h)"]
  have "await_SPIF hw (snd (get_SPSR hw h)) = Some (polls hw (Suc n) (snd (get_SPSR hw h)))"
    by (simp add: SPIF_seen_Suc)
  with unseen show ?case by (simp add: await_SPIF_unseen)
qed

lemma await_SPIF_Some_seen:
  assumes "await_SPIF hw h = Some h'"
  shows "\<exists>n. SPIF_seen hw h n"
proof (rule await_SPIF.raw_induct
    [where P = "\<lambda>hw h y. \<exists>n. SPIF_seen hw h n" and hw = hw and h = h and y = h'])
  show "await_SPIF hw h = Some h'" by fact
next
  fix f :: "'a bus \<Rightarrow> 'a \<Rightarrow> 'a option" and hw h y
  assume IH: "\<And>hw h y. f hw h = Some y \<Longrightarrow> \<exists>n. SPIF_seen hw h n"
    and step: "(case get_SPSR hw h of
                  (v, h') \<Rightarrow> if v AND push_bit SPIF 1 = 0 then f hw h' else Some h') = Some y"
  show "\<exists>n. SPIF_seen hw h n"
  proof (cases "SPIF_seen hw h 0")
    case True
    then show ?thesis ..
  next
    case False
    with step have "f hw (snd (get_SPSR hw h)) = Some y"
      by (simp add: SPIF_seen_def case_prod_unfold)
    from IH [OF this] obtain n where "SPIF_seen hw (snd (get_SPSR hw h)) n" ..
    then have "SPIF_seen hw h (Suc n)" by (simp add: SPIF_seen_Suc)
    then show ?thesis ..
  qed
qed

lemma await_SPIF_never:
  "(\<forall>n. \<not> SPIF_seen hw h n) \<Longrightarrow> await_SPIF hw h = None"
  using await_SPIF_Some_seen [of hw h] by (cases "await_SPIF hw h") auto


lemma sendData_first:
  assumes "SPIF_seen hw (put_SPDR hw d (env s)) n"
    and "\<forall>m<n. \<not> SPIF_seen hw (put_SPDR hw d (env s)) m"
  shows "sendData hw d s =
    Some (fst (get_SPDR hw (polls hw (Suc n) (put_SPDR hw d (env s)))),
          s\<lparr>env := snd (get_SPDR hw (polls hw (Suc n) (put_SPDR hw d (env s)))),
            trace := trace s @
              [Exchange d (fst (get_SPDR hw (polls hw (Suc n) (put_SPDR hw d (env s)))))]\<rparr>)"
  by (simp add: sendData_def await_SPIF_first [OF assms] case_prod_unfold Let_def)

lemma sendData_Some:
  assumes "SPIF_seen hw (put_SPDR hw d (env s)) n"
  obtains r h where
    "sendData hw d s = Some (r, s\<lparr>env := h, trace := trace s @ [Exchange d r]\<rparr>)"
proof -
  let ?k = "LEAST n. SPIF_seen hw (put_SPDR hw d (env s)) n"
  have "SPIF_seen hw (put_SPDR hw d (env s)) ?k" using assms by (rule LeastI)
  moreover have "\<forall>m<?k. \<not> SPIF_seen hw (put_SPDR hw d (env s)) m"
    using not_less_Least by blast
  ultimately show thesis using sendData_first that by blast
qed

lemma sendData_None:
  "(\<forall>n. \<not> SPIF_seen hw (put_SPDR hw d (env s)) n) \<Longrightarrow> sendData hw d s = None"
  by (simp add: sendData_def await_SPIF_never)

lemma sendData_SomeD:
  assumes "sendData hw d s = Some (r, s')"
  shows "regs s' = regs s \<and> trace s' = trace s @ [Exchange d r]"
proof -
  from assms obtain h where "await_SPIF hw (put_SPDR hw d (env s)) = Some h"
    by (auto simp: sendData_def split: bind_splits)
  from await_SPIF_Some_seen [OF this]
  obtain n where "SPIF_seen hw (put_SPDR hw d (env s)) n" ..
  from sendData_Some [OF this] obtain r0 h0 where
    "sendData hw d s = Some (r0, s\<lparr>env := h0, trace := trace s @ [Exchange d r0]\<rparr>)" .
  with assms show ?thesis by auto
qed

lemma sendData_responsive:
  assumes "responsive hw"
  obtains r s' where "sendData hw d s = Some (r, s')"
proof -
  from assms obtain n where "SPIF_seen hw (put_SPDR hw d (env s)) n"
    unfolding responsive_def by blast
  from sendData_Some [OF this] that show thesis by metis
qed

subsection \<open>The simulated bus is responsive\<close>

lemma polls_sim: "polls sim_bus n h = h\<lparr>remaining := remaining h - n\<rparr>"
  by (induction n arbitrary: h) (simp_all add: sim_bus_def)

lemma SPIF_seen_sim: "SPIF_seen sim_bus h n = (remaining h \<le> n)"
  by (simp add: SPIF_seen_def polls_sim) (simp add: sim_bus_def SPIF_def)

lemma responsive_sim: "responsive sim_bus"
  unfolding responsive_def SPIF_seen_sim by (intro allI exI) (rule order_refl)

subsection \<open>The stalled bus never shows the flag\<close>

lemma stalled_never: "\<not> SPIF_seen stalled_bus h n"
  by (simp add: SPIF_seen_def stalled_bus_def)

lemma stalled_all: "\<forall>h b n. \<not> SPIF_seen stalled_bus (put_SPDR stalled_bus b h) n"
  by (simp add: stalled_never)

subsection \<open>What an operation that returns has done, on any hardware\<close>

lemma cs_low_then_high:
  "(p AND NOT (2 ^ CHIP_SELECT)) OR 2 ^ CHIP_SELECT = p OR (2 ^ CHIP_SELECT :: byte)"
  by (rule bit_eqI) (auto simp: bit_simps)

lemma writeToRegister_SomeD:
  assumes "writeToRegister hw a v s = Some s'"
  shows "regs s' = (regs s)(PORTB := regs s PORTB OR push_bit CHIP_SELECT 1) \<and>
    (\<exists>r1 r2 r3. trace s' = trace s @
       [Store PORTB (regs s PORTB AND NOT (push_bit CHIP_SELECT 1)),
        Exchange SPI_WRITE r1, Exchange a r2, Exchange v r3,
        Store PORTB (regs s PORTB OR push_bit CHIP_SELECT 1)])"
  using assms
  by (auto simp: writeToRegister_def Let_def and_reg_def or_reg_def write_reg_def
      cs_low_then_high split: bind_splits dest!: sendData_SomeD)

lemma readRegister_SomeD:
  assumes "readRegister hw a s = Some (r, s')"
  shows "regs s' = (regs s)(PORTB := regs s PORTB OR push_bit CHIP_SELECT 1) \<and>
    (\<exists>r1 r2. trace s' = trace s @
       [Store PORTB (regs s PORTB AND NOT (push_bit CHIP_SELECT 1)),
        Exchange SPI_READ r1, Exchange a r2, Exchange FILLER r,
        Store PORTB (regs s PORTB OR push_bit CHIP_SELECT 1)])"
  using assms
  by (auto simp: readRegister_def Let_def and_reg_def or_reg_def write_reg_def
      cs_low_then_high split: bind_splits dest!: sendData_SomeD)

lemma bitModify_SomeD:
  assumes "bitModify hw a m v s = Some s'"
  shows "regs s' = (regs s)(PORTB := regs s PORTB OR push_bit CHIP_SELECT 1) \<and>
    (\<exists>r1 r2 r3 r4. trace s' = trace s @
       [Store PORTB (regs s PORTB AND NOT (push_bit CHIP_SELECT 1)),
        Exchange SPI_BIT_MODIFY r1, Exchange a r2, Exchange m r3, Exchange v r4,
        Store PORTB (regs s PORTB OR push_bit CHIP_SELECT 1)])"
  using assms
  by (auto simp: bitModify_def Let_def and_reg_def or_reg_def write_reg_def
      cs_low_then_high split: bind_splits dest!: sendData_SomeD)

lemma readStatus_SomeD:
  assumes "readStatus hw t s = Some (r, s')"
  shows "regs s' = (regs s)(PORTB := regs s PORTB OR push_bit CHIP_SELECT 1) \<and>
    (\<exists>r1. trace s' = trace s @
       [Store PORTB (regs s PORTB AND NOT (push_bit CHIP_SELECT 1)),
        Exchange t r1, Exchange FILLER r,
        Store PORTB (regs s PORTB OR push_bit CHIP_SELECT 1)])"
  using assms
  by (auto simp: readStatus_def Let_def and_reg_def or_reg_def write_reg_def
      cs_low_then_high split: bind_splits dest!: sendData_SomeD)

lemma resetController_SomeD:
  assumes "resetController hw s = Some s'"
  shows "regs s' = (regs s)(PORTB := regs s PORTB OR push_bit CHIP_SELECT 1) \<and>
    (\<exists>r1. trace s' = trace s @
       [Store PORTB (regs s PORTB AND NOT (push_bit CHIP_SELECT 1)),
        Exchange SPI_RESET r1,
        Store PORTB (regs s PORTB OR push_bit CHIP_SELECT 1)])"
  using assms
  by (auto simp: resetController_def Let_def and_reg_def or_reg_def write_reg_def
      cs_low_then_high split: bind_splits dest!: sendData_SomeD)

subsection \<open>The operations return on a responsive bus\<close>

lemma sendData_total:
  "responsive hw \<Longrightarrow> \<exists>r s'. sendData hw d s = Some (r, s')"
  by (erule sendData_responsive) blast

lemma bind_sendData_total:
  assumes "responsive hw" and "\<And>r s'. f (r, s') \<noteq> None"
  shows "(sendData hw d s \<bind> f) \<noteq> None"
proof -
  from sendData_total [OF assms(1)] obtain r s' where "sendData hw d s = Some (r, s')"
    by blast
  with assms(2) show ?thesis by simp
qed

lemma writeToRegister_total: "responsive hw \<Longrightarrow> writeToRegister hw a v s \<noteq> None"
  unfolding writeToRegister_def Let_def
  by (intro bind_sendData_total) (simp_all add: case_prod_unfold bind_sendData_total)

lemma readRegister_total: "responsive hw \<Longrightarrow> readRegister hw a s \<noteq> None"
  unfolding readRegister_def Let_def
  by (intro bind_sendData_total) (simp_all add: case_prod_unfold bind_sendData_total)

lemma bitModify_total: "responsive hw \<Longrightarrow> bitModify hw a m v s \<noteq> None"
  unfolding bitModify_def Let_def
  by (intro bind_sendData_total) (simp_all add: case_prod_unfold bind_sendData_total)

lemma readStatus_total: "responsive hw \<Longrightarrow> readStatus hw t s \<noteq> None"
  unfolding readStatus_def Let_def
  by (intro bind_sendData_total) (simp_all add: case_prod_unfold bind_sendData_total)

lemma resetController_total: "responsive hw \<Longrightarrow> resetController hw s \<noteq> None"
  unfolding resetController_def Let_def
  by (intro bind_sendData_total) (simp_all add: case_prod_unfold bind_sendData_total)

subsection \<open>The operations on the simulated bus\<close>

lemma await_SPIF_sim: "await_SPIF sim_bus h = Some (h\<lparr>remaining := 0\<rparr>)"
proof -
  have "SPIF_seen sim_bus h (remaining h)" by (simp add: SPIF_seen_sim)
  moreover have "\<forall>m<remaining h. \<not> SPIF_seen sim_bus h m" by (simp add: SPIF_seen_sim)
  ultimately have "await_SPIF sim_bus h = Some (polls sim_bus (Suc (remaining h)) h)"
    by (rule await_SPIF_first)
  then show ?thesis by (simp add: polls_sim del: polls.simps)
qed

lemma sendData_sim:
  "sendData sim_bus d s =
     Some (fst (chip_exchange d (chip (env s))),
           s\<lparr>env := (env s)\<lparr>chip := snd (chip_exchange d (chip (env s))),
                             rx := fst (chip_exchange d (chip (env s))),
                             remaining := 0\<rparr>,
             trace := trace s @ [Exchange d (fst (chip_exchange d (chip (env s))))]\<rparr>)"
  unfolding sendData_def await_SPIF_sim
  by (simp add: sim_bus_def case_prod_unfold)

lemma latch_sim_low:
  "chip (latch sim_bus PORTB (p AND NOT (2 ^ CHIP_SELECT)) h) = chip_select False (chip h)"
  by (simp add: sim_bus_def bit_simps)

lemma latch_sim_high:
  "chip (latch sim_bus PORTB (p OR 2 ^ CHIP_SELECT) h) = chip_select True (chip h)"
  by (simp add: sim_bus_def bit_simps CHIP_SELECT_def)

text \<open>The chip's side of the transactions, from a chip with no transaction open.\<close>

lemma chip_write:
  assumes "phase c = Deselected"
  shows "chip_select True (snd (chip_exchange v (snd (chip_exchange a
           (snd (chip_exchange SPI_WRITE (chip_select False c)))))))
         = c\<lparr>cregs := (cregs c)(a := v)\<rparr>"
  using assms
  by (simp add: chip_select_def chip_exchange_def SPI_WRITE_def SPI_RESET_def)

lemma chip_read:
  assumes "phase c = Deselected"
  shows "chip_select True (snd (chip_exchange f (snd (chip_exchange a
           (snd (chip_exchange SPI_READ (chip_select False c))))))) = c"
    and "fst (chip_exchange f (snd (chip_exchange a
           (snd (chip_exchange SPI_READ (chip_select False c)))))) = cregs c a"
  using assms
  by (simp_all add: chip_select_def chip_exchange_def SPI_WRITE_def SPI_READ_def SPI_RESET_def)

lemma chip_bit_modify:
  assumes "phase c = Deselected"
  shows "chip_select True (snd (chip_exchange v (snd (chip_exchange m (snd (chip_exchange a
           (snd (chip_exchange SPI_BIT_MODIFY (chip_select False c)))))))))
         = c\<lparr>cregs := (cregs c)(a := (cregs c a AND NOT m) OR (v AND m))\<rparr>"
  using assms
  by (simp add: chip_select_def chip_exchange_def SPI_WRITE_def SPI_READ_def
      SPI_BIT_MODIFY_def SPI_RESET_def)

lemma writeToRegister_sim:
  assumes "phase (chip (env s)) = Deselected"
  shows "\<exists>s'. writeToRegister sim_bus a v s = Some s' \<and>
           chip (env s') = (chip (env s))\<lparr>cregs := (cregs (chip (env s)))(a := v)\<rparr>"
  using assms
  by (simp add: writeToRegister_def sendData_sim and_reg_def or_reg_def write_reg_def
      latch_sim_low latch_sim_high chip_write)

lemma readRegister_sim:
  assumes "phase (chip (env s)) = Deselected"
  shows "\<exists>s'. readRegister sim_bus a s = Some (cregs (chip (env s)) a, s') \<and>
           chip (env s') = chip (env s)"
  using assms
  by (simp add: readRegister_def sendData_sim and_reg_def or_reg_def write_reg_def
      latch_sim_low latch_sim_high chip_read)

lemma bitModify_sim:
  assumes "phase (chip (env s)) = Deselected"
  shows "\<exists>s'. bitModify sim_bus a m v s = Some s' \<and>
           chip (env s') = (chip (env s))
             \<lparr>cregs := (cregs (chip (env s)))
                (a := (cregs (chip (env s)) a AND NOT m) OR (v AND m))\<rparr>"
  using assms
  by (simp add: bitModify_def sendData_sim and_reg_def or_reg_def write_reg_def
      latch_sim_low latch_sim_high chip_bit_modify)

subsection \<open>Bits\<close>

lemma only_chip_select_differs_high:
  "only_chip_select_differs f (f(PORTB := f PORTB OR 2 ^ CHIP_SELECT))"
  by (auto simp: only_chip_select_differs_def bit_simps)

lemma masked_update_bits:
  "bit ((old AND NOT m) OR (v AND m) :: byte) i = (if bit m i then bit v i else bit old i)"
  by (auto simp: bit_simps dest: bit_imp_le_length)

subsection \<open>The initialization sequence\<close>

lemma bind_resetController_total:
  assumes "responsive hw" and "\<And>s'. f s' \<noteq> None"
  shows "(resetController hw s \<bind> f) \<noteq> None"
proof -
  from resetController_total [OF assms(1), of s] obtain s' where
    "resetController hw s = Some s'" by blast
  with assms(2) show ?thesis by simp
qed

lemma initController_total: "responsive hw \<Longrightarrow> initController hw c p s \<noteq> None"
  unfolding initController_def Let_def
  by (intro bind_resetController_total bind_sendData_total)
    (simp_all add: case_prod_unfold bind_sendData_total)

text \<open>
  What \<^verbatim>\<open>initController\<close> has done when it returns, on any hardware: the stores, the
  reset transaction, the delay and the three exchanges, in this order, and nothing after
  the third exchange; bit \<^verbatim>\<open>CHIP_SELECT\<close> of \<^verbatim>\<open>PORTB\<close> is then 0.
\<close>

lemma initController_SomeD:
  assumes "initController hw c p s = Some (r, s')"
  shows "\<not> bit (regs s' PORTB) CHIP_SELECT"
    and "\<exists>r0 r1 r2 r3. trace s' = trace s @
      [Store PORTB (regs s PORTB OR 4),
       Store DDRB (regs s DDRB OR 4),
       Store PORTB ((regs s PORTB OR 4) AND NOT 0x38),
       Store DDRB ((regs s DDRB OR 4) OR 0x30),
       Store DDRB (((regs s DDRB OR 4) OR 0x30) AND NOT 8),
       Store DDRD (regs s DDRD AND NOT 4),
       Store PORTD (regs s PORTD OR 4),
       Store SPCR 0x51,
       Store_SPSR 0,
       Store PORTB (((regs s PORTB OR 4) AND NOT 0x38) AND NOT 4),
       Exchange SPI_RESET r0,
       Store PORTB (((regs s PORTB OR 4) AND NOT 0x38) OR 4),
       Delay_us 10,
       Store PORTB ((((regs s PORTB OR 4) AND NOT 0x38) OR 4) AND NOT 4),
       Exchange SPI_WRITE r1, Exchange c r2, Exchange (push_bit p 1) r3]"
  using assms
  by (auto simp: initController_def Let_def and_reg_def or_reg_def write_reg_def
      write_SPSR_def delay_us_def bit_simps case_prod_unfold cs_low_then_high
      CHIP_SELECT_def SERIAL_CLK_def MOSI_def MISO_def INTERRUPT_LOW_def
      SPE_def DORD_def MSTR_def SPR1_def SPR0_def
      split: bind_splits dest!: sendData_SomeD resetController_SomeD)

subsection \<open>The power-up state on the simulated bus\<close>



lemma mcu0_regs: "regs mcu0 r = (if r = PIND then 0xFF else 0)"
  by (simp add: mcu0_def)

lemma mcu0_trace: "trace mcu0 = []"
  by (simp add: mcu0_def)

subsection \<open>The initialization sequence on the simulated bus\<close>

lemma initController_parts:
  "initController hw c p s = do {
     s10 \<leftarrow> resetController hw (init_ports hw s);
     load_config hw c p (delay_us hw 10 s10)
   }"
  by (simp add: initController_def init_ports_def load_config_def Let_def)

lemma sim_bus_latch:
  "latch sim_bus r v h =
     (if r = PORTB then h\<lparr>chip := chip_select (bit v CHIP_SELECT) (chip h)\<rparr> else h)"
  by (simp add: sim_bus_def)

lemma sim_bus_put_SPSR: "put_SPSR sim_bus v h = h"
  by (simp add: sim_bus_def)

lemma sim_bus_get_SPDR: "get_SPDR sim_bus h = (rx h, h)"
  by (simp add: sim_bus_def)

lemma sim_bus_elapse: "elapse sim_bus n h = h"
  by (simp add: sim_bus_def)

lemma chip_select_twice: "chip_select True (chip_select True c) = chip_select True c"
  by (simp add: chip_select_def)

lemma init_ports_sim:
  "chip (env (init_ports sim_bus s)) = chip_select True (chip (env s))"
  by (simp add: init_ports_def Let_def or_reg_def and_reg_def write_reg_def write_SPSR_def
      sim_bus_latch sim_bus_put_SPSR bit_simps chip_select_twice
      CHIP_SELECT_def SERIAL_CLK_def MOSI_def MISO_def)

lemma delay_us_sim: "chip (env (delay_us sim_bus n s)) = chip (env s)"
  by (simp add: delay_us_def sim_bus_elapse)

lemma chip_reset:
  assumes "phase c = Deselected"
  shows "chip_select True (snd (chip_exchange SPI_RESET (chip_select False c)))
         = c\<lparr>cregs := defaults c\<rparr>"
  using assms by (simp add: chip_select_def chip_exchange_def)

lemma resetController_sim:
  assumes "phase (chip (env s)) = Deselected"
  shows "\<exists>s'. resetController sim_bus s = Some s' \<and>
           chip (env s') = (chip (env s))\<lparr>cregs := defaults (chip (env s))\<rparr>"
  using assms
  by (simp add: resetController_def sendData_sim and_reg_def or_reg_def write_reg_def
      latch_sim_low latch_sim_high chip_reset)

lemma chip_config:
  assumes "phase c = Deselected"
  shows "snd (chip_exchange v (snd (chip_exchange a
           (snd (chip_exchange SPI_WRITE (chip_select False c))))))
         = c\<lparr>cregs := (cregs c)(a := v), phase := Finished\<rparr>"
  using assms
  by (simp add: chip_select_def chip_exchange_def SPI_WRITE_def SPI_RESET_def)

lemma load_config_sim:
  assumes "phase (chip (env s)) = Deselected"
  shows "\<exists>r s'. load_config sim_bus c p s = Some (r, s') \<and>
           chip (env s') = (chip (env s))
             \<lparr>cregs := (cregs (chip (env s)))(c := push_bit p 1), phase := Finished\<rparr>"
  using assms
  by (simp add: load_config_def sendData_sim and_reg_def write_reg_def
      latch_sim_low sim_bus_get_SPDR chip_config)

lemma initController_sim:
  "\<exists>r s'. initController sim_bus c p s = Some (r, s') \<and>
     chip (env s') = (chip (env s))
       \<lparr>cregs := (defaults (chip (env s)))(c := push_bit p 1), phase := Finished\<rparr>"
proof -
  have "phase (chip (env (init_ports sim_bus s))) = Deselected"
    by (simp add: init_ports_sim chip_select_def)
  from resetController_sim [OF this] obtain s10 where
    reset: "resetController sim_bus (init_ports sim_bus s) = Some s10" and
    c10: "chip (env s10) = (chip (env s))\<lparr>cregs := defaults (chip (env s)), phase := Deselected\<rparr>"
    by (auto simp: init_ports_sim chip_select_def)
  have "phase (chip (env (delay_us sim_bus 10 s10))) = Deselected"
    by (simp add: delay_us_sim c10)
  from load_config_sim [OF this, of c p] obtain r s' where
    "load_config sim_bus c p (delay_us sim_bus 10 s10) = Some (r, s')" and
    "chip (env s') = (chip (env s))
       \<lparr>cregs := (defaults (chip (env s)))(c := push_bit p 1), phase := Finished\<rparr>"
    by (auto simp: delay_us_sim c10)
  with reset show ?thesis by (simp add: initController_parts)
qed

text \<open>The chip's side of the transactions, from a chip whose transaction has had its bytes.\<close>

lemma chip_finished:
  assumes "phase c = Finished"
  shows "chip_select False c = c" and "chip_exchange b c = (0, c)"
  using assms by (simp_all add: chip_select_def chip_exchange_def)

lemma writeToRegister_sim_finished:
  assumes "phase (chip (env s)) = Finished"
  shows "\<exists>s'. writeToRegister sim_bus a v s = Some s' \<and>
           chip (env s') = (chip (env s))\<lparr>phase := Deselected\<rparr>"
  using assms
  by (simp add: writeToRegister_def sendData_sim and_reg_def or_reg_def write_reg_def
      latch_sim_low latch_sim_high chip_finished) (simp add: chip_select_def)

lemma readRegister_sim_finished:
  assumes "phase (chip (env s)) = Finished"
  shows "\<exists>s'. readRegister sim_bus a s = Some (0, s') \<and>
           chip (env s') = (chip (env s))\<lparr>phase := Deselected\<rparr>"
  using assms
  by (simp add: readRegister_def sendData_sim and_reg_def or_reg_def write_reg_def
      latch_sim_low latch_sim_high chip_finished) (simp add: chip_select_def)

lemma bitModify_sim_finished:
  assumes "phase (chip (env s)) = Finished"
  shows "\<exists>s'. bitModify sim_bus a m v s = Some s' \<and>
           chip (env s') = (chip (env s))\<lparr>phase := Deselected\<rparr>"
  using assms
  by (simp add: bitModify_def sendData_sim and_reg_def or_reg_def write_reg_def
      latch_sim_low latch_sim_high chip_finished) (simp add: chip_select_def)

subsection \<open>The phases in which the operations return\<close>

lemma phase_chip_select_True: "phase (chip_select True c) = Deselected"
  by (simp add: chip_select_def)

lemma writeToRegister_ends_deselected:
  "\<exists>s'. writeToRegister sim_bus a v s = Some s' \<and> phase (chip (env s')) = Deselected"
  by (simp add: writeToRegister_def sendData_sim or_reg_def write_reg_def
      latch_sim_high phase_chip_select_True Let_def)

lemma readRegister_ends_deselected:
  "\<exists>r s'. readRegister sim_bus a s = Some (r, s') \<and> phase (chip (env s')) = Deselected"
  by (simp add: readRegister_def sendData_sim or_reg_def write_reg_def
      latch_sim_high phase_chip_select_True Let_def)

lemma bitModify_ends_deselected:
  "\<exists>s'. bitModify sim_bus a m v s = Some s' \<and> phase (chip (env s')) = Deselected"
  by (simp add: bitModify_def sendData_sim or_reg_def write_reg_def
      latch_sim_high phase_chip_select_True Let_def)

lemma readStatus_ends_deselected:
  "\<exists>r s'. readStatus sim_bus t s = Some (r, s') \<and> phase (chip (env s')) = Deselected"
  by (simp add: readStatus_def sendData_sim or_reg_def write_reg_def
      latch_sim_high phase_chip_select_True Let_def)

lemma resetController_ends_deselected:
  "\<exists>s'. resetController sim_bus s = Some s' \<and> phase (chip (env s')) = Deselected"
  by (simp add: resetController_def sendData_sim or_reg_def write_reg_def
      latch_sim_high phase_chip_select_True Let_def)

lemma initController_ends_finished:
  "\<exists>r s'. initController sim_bus c p s = Some (r, s') \<and> phase (chip (env s')) = Finished"
  using initController_sim [of c p s] by auto


lemma mcu0_defaults: "defaults (chip (env mcu0)) a = 0"
  by (simp add: mcu0_def sim0_def chip0_def)

lemma initController_mcu0:
  "\<exists>r s1. initController sim_bus 0x28 1 mcu0 = Some (r, s1)
     \<and> phase (chip (env s1)) = Finished
     \<and> (\<forall>a. cregs (chip (env s1)) a = (if a = 0x28 then 2 else 0))"
proof -
  from initController_sim [of "0x28" 1 mcu0] obtain r s1 where
    init: "initController sim_bus 0x28 1 mcu0 = Some (r, s1)" and
    c1: "chip (env s1) = (chip (env mcu0))
       \<lparr>cregs := (defaults (chip (env mcu0)))(0x28 := push_bit 1 1), phase := Finished\<rparr>"
    by blast
  from c1 have "phase (chip (env s1)) = Finished" by simp
  moreover from c1 have "\<forall>a. cregs (chip (env s1)) a = (if a = 0x28 then 2 else 0)"
    by (simp add: mcu0_defaults)
  ultimately show ?thesis using init by blast
qed

subsection \<open>The round trips with no transaction open\<close>

lemma bitModify_then_readRegister_deselected:
  assumes "phase (chip (env s)) = Deselected"
  shows "do {
           s1 \<leftarrow> bitModify sim_bus R M V s;
           (r, s2) \<leftarrow> readRegister sim_bus R s1;
           Some r
         } = Some ((cregs (chip (env s)) R AND NOT M) OR (V AND M))"
proof -
  from bitModify_sim [OF assms, of R M V] obtain s1 where
    bm: "bitModify sim_bus R M V s = Some s1" and
    c1: "chip (env s1) = (chip (env s))
           \<lparr>cregs := (cregs (chip (env s)))
              (R := (cregs (chip (env s)) R AND NOT M) OR (V AND M))\<rparr>" by blast
  from c1 assms have "phase (chip (env s1)) = Deselected" by simp
  from readRegister_sim [OF this, of R] obtain s2 where
    "readRegister sim_bus R s1 = Some (cregs (chip (env s1)) R, s2)" by blast
  with bm c1 show ?thesis by simp
qed

lemma writeToRegister_then_readRegister_deselected:
  assumes "phase (chip (env s)) = Deselected"
  shows "do {
           s1 \<leftarrow> writeToRegister sim_bus R V s;
           (r, s2) \<leftarrow> readRegister sim_bus R s1;
           Some r
         } = Some V"
proof -
  from writeToRegister_sim [OF assms, of R V] obtain s1 where
    wr: "writeToRegister sim_bus R V s = Some s1" and
    c1: "chip (env s1) = (chip (env s))\<lparr>cregs := (cregs (chip (env s)))(R := V)\<rparr>"
    by blast
  from c1 assms have "phase (chip (env s1)) = Deselected" by simp
  from readRegister_sim [OF this, of R] obtain s2 where
    "readRegister sim_bus R s1 = Some (cregs (chip (env s1)) R, s2)" by blast
  with wr c1 show ?thesis by simp
qed

section \<open>The claims\<close>

text \<open>
  C7: for every state of the input register, \<^verbatim>\<open>messageReceived\<close> returns 1 exactly when
  bit \<^verbatim>\<open>INTERRUPT_LOW\<close> of \<^verbatim>\<open>PIND\<close> reads low and 0 when it reads high; the result depends
  on nothing else, and the state is returned as it was.
\<close>

theorem messageReceived_inverts_line:
  "messageReceived s = ((if bit (regs s PIND) INTERRUPT_LOW then 0 else 1), s)"
  by (simp add: messageReceived_def bit_iff_and_push_bit_not_eq_0)

text \<open>
  C9: \<^verbatim>\<open>sendData\<close> returns when the flag \<^verbatim>\<open>SPIF\<close> is seen by some read of \<^verbatim>\<open>SPSR\<close>
  after the byte is loaded, and the byte it returns is the one read from \<^verbatim>\<open>SPDR\<close>
  right after the first such read; when no read ever sees the flag, \<^verbatim>\<open>sendData\<close> does
  not return, and on a bus where that holds for every byte none of its callers returns.
\<close>

theorem sendData_returns_iff_SPIF:
  "(SPIF_seen hw (put_SPDR hw d (env s)) n \<and>
      (\<forall>m<n. \<not> SPIF_seen hw (put_SPDR hw d (env s)) m) \<longrightarrow>
        (\<exists>s'. sendData hw d s =
           Some (fst (get_SPDR hw (polls hw (Suc n) (put_SPDR hw d (env s)))), s')))
   \<and> ((\<exists>k. SPIF_seen hw (put_SPDR hw d (env s)) k) \<longrightarrow> sendData hw d s \<noteq> None)
   \<and> ((\<forall>k. \<not> SPIF_seen hw (put_SPDR hw d (env s)) k) \<longrightarrow> sendData hw d s = None)
   \<and> ((\<forall>h b k. \<not> SPIF_seen hw (put_SPDR hw b h) k) \<longrightarrow>
         writeToRegister hw a v s = None \<and> readRegister hw a s = None \<and>
         bitModify hw a msk v s = None \<and> readStatus hw t s = None \<and>
         resetController hw s = None \<and> initController hw c p s = None)"
proof (intro conjI impI)
  assume "SPIF_seen hw (put_SPDR hw d (env s)) n \<and>
      (\<forall>m<n. \<not> SPIF_seen hw (put_SPDR hw d (env s)) m)"
  then have first: "SPIF_seen hw (put_SPDR hw d (env s)) n"
    and before: "\<forall>m<n. \<not> SPIF_seen hw (put_SPDR hw d (env s)) m" by blast+
  from sendData_first [OF first before]
  show "\<exists>s'. sendData hw d s =
           Some (fst (get_SPDR hw (polls hw (Suc n) (put_SPDR hw d (env s)))), s')" ..
next
  assume "\<exists>k. SPIF_seen hw (put_SPDR hw d (env s)) k"
  then obtain k where "SPIF_seen hw (put_SPDR hw d (env s)) k" ..
  from sendData_Some [OF this] show "sendData hw d s \<noteq> None" by (metis option.distinct(1))
next
  assume "\<forall>k. \<not> SPIF_seen hw (put_SPDR hw d (env s)) k"
  then show "sendData hw d s = None" by (rule sendData_None)
next
  assume stalled: "\<forall>h b k. \<not> SPIF_seen hw (put_SPDR hw b h) k"
  then have hang: "sendData hw b x = None" for b x by (simp add: sendData_None)
  show "writeToRegister hw a v s = None" by (simp add: writeToRegister_def hang)
  show "readRegister hw a s = None" by (simp add: readRegister_def hang)
  show "bitModify hw a msk v s = None" by (simp add: bitModify_def hang)
  show "readStatus hw t s = None" by (simp add: readStatus_def hang)
  show reset: "resetController hw s = None" by (simp add: resetController_def hang)
  have "resetController hw x = None" for x by (simp add: resetController_def hang)
  then show "initController hw c p s = None" by (simp add: initController_def)
qed

theorem sendData_returns_iff_SPIF_witness:
  "SPIF_seen sim_bus (put_SPDR sim_bus 0x42 (env mcu0)) 2
   \<and> \<not> SPIF_seen sim_bus (put_SPDR sim_bus 0x42 (env mcu0)) 0
   \<and> \<not> SPIF_seen sim_bus (put_SPDR sim_bus 0x42 (env mcu0)) 1
   \<and> (\<exists>k. SPIF_seen sim_bus (put_SPDR sim_bus 0x42 (env mcu0)) k)
   \<and> (\<exists>s'. sendData sim_bus 0x42 mcu0 =
           Some (fst (get_SPDR sim_bus (polls sim_bus 3 (put_SPDR sim_bus 0x42 (env mcu0)))), s'))
   \<and> sendData sim_bus 0x42 mcu0 \<noteq> None
   \<and> (\<forall>h b k. \<not> SPIF_seen stalled_bus (put_SPDR stalled_bus b h) k)
   \<and> sendData stalled_bus 0x42 stalled0 = None
   \<and> writeToRegister stalled_bus 0x28 0xA5 stalled0 = None
   \<and> readRegister stalled_bus 0x28 stalled0 = None
   \<and> bitModify stalled_bus 0x28 0x0F 0xA5 stalled0 = None
   \<and> readStatus stalled_bus SPI_READ_STATUS stalled0 = None
   \<and> resetController stalled_bus stalled0 = None
   \<and> initController stalled_bus 0x28 1 stalled0 = None"
proof -
  have seen: "SPIF_seen sim_bus (put_SPDR sim_bus 0x42 (env mcu0)) 2 \<and>
      (\<forall>m<2. \<not> SPIF_seen sim_bus (put_SPDR sim_bus 0x42 (env mcu0)) m)"
    by (simp add: SPIF_seen_sim) (simp add: sim_bus_def mcu0_def sim0_def case_prod_unfold)
  then have early: "\<not> SPIF_seen sim_bus (put_SPDR sim_bus 0x42 (env mcu0)) 0"
    "\<not> SPIF_seen sim_bus (put_SPDR sim_bus 0x42 (env mcu0)) 1" by simp_all
  from seen have ex: "\<exists>k. SPIF_seen sim_bus (put_SPDR sim_bus 0x42 (env mcu0)) k" by blast
  note live = sendData_returns_iff_SPIF
    [where hw = sim_bus and d = "0x42" and s = mcu0 and n = 2 and a = "0x28"
       and v = "0xA5" and msk = "0x0F" and t = SPI_READ_STATUS and c = "0x28" and p = 1]
  note dead = sendData_returns_iff_SPIF
    [where hw = stalled_bus and d = "0x42" and s = stalled0 and n = 0 and a = "0x28"
       and v = "0xA5" and msk = "0x0F" and t = SPI_READ_STATUS and c = "0x28" and p = 1]
  from seen early ex stalled_all live dead show ?thesis
    by (simp add: numeral_3_eq_3 del: polls.simps)
qed

text \<open>
  C10: when \<^verbatim>\<open>writeToRegister\<close>, \<^verbatim>\<open>readRegister\<close>, \<^verbatim>\<open>bitModify\<close> or \<^verbatim>\<open>readStatus\<close>
  returns, on any hardware, every latch register other than \<^verbatim>\<open>PORTB\<close> (so \<^verbatim>\<open>DDRB\<close>,
  \<^verbatim>\<open>DDRD\<close>, \<^verbatim>\<open>PORTD\<close> and \<^verbatim>\<open>SPCR\<close>) holds what it held at the call, and so does every
  bit of \<^verbatim>\<open>PORTB\<close> other than bit \<^verbatim>\<open>CHIP_SELECT\<close>.
\<close>

theorem register_access_frame:
  "(writeToRegister hw a v s = Some s1 \<longrightarrow> only_chip_select_differs (regs s) (regs s1))
   \<and> (readRegister hw a s = Some (r2, s2) \<longrightarrow> only_chip_select_differs (regs s) (regs s2))
   \<and> (bitModify hw a m v s = Some s3 \<longrightarrow> only_chip_select_differs (regs s) (regs s3))
   \<and> (readStatus hw t s = Some (r4, s4) \<longrightarrow> only_chip_select_differs (regs s) (regs s4))"
  by (auto dest!: writeToRegister_SomeD readRegister_SomeD bitModify_SomeD readStatus_SomeD
      simp: only_chip_select_differs_high)

theorem register_access_frame_witness:
  "\<exists>s1 r2 s2 s3 r4 s4.
     writeToRegister sim_bus 0x28 0xA5 mcu0 = Some s1
     \<and> only_chip_select_differs (regs mcu0) (regs s1)
     \<and> regs s1 DDRB = regs mcu0 DDRB \<and> regs s1 SPCR = regs mcu0 SPCR
     \<and> readRegister sim_bus 0x28 mcu0 = Some (r2, s2)
     \<and> only_chip_select_differs (regs mcu0) (regs s2)
     \<and> bitModify sim_bus 0x28 0x0F 0xA5 mcu0 = Some s3
     \<and> only_chip_select_differs (regs mcu0) (regs s3)
     \<and> readStatus sim_bus SPI_READ_STATUS mcu0 = Some (r4, s4)
     \<and> only_chip_select_differs (regs mcu0) (regs s4)"
proof -
  obtain s1 where w: "writeToRegister sim_bus 0x28 0xA5 mcu0 = Some s1"
    using writeToRegister_total [OF responsive_sim] by blast
  obtain r2 s2 where r: "readRegister sim_bus 0x28 mcu0 = Some (r2, s2)"
    using readRegister_total [OF responsive_sim] by fastforce
  obtain s3 where b: "bitModify sim_bus 0x28 0x0F 0xA5 mcu0 = Some s3"
    using bitModify_total [OF responsive_sim] by blast
  obtain r4 s4 where t: "readStatus sim_bus SPI_READ_STATUS mcu0 = Some (r4, s4)"
    using readStatus_total [OF responsive_sim] by fastforce
  note frame = register_access_frame
    [where hw = sim_bus and a = "0x28" and v = "0xA5" and m = "0x0F" and s = mcu0
       and t = SPI_READ_STATUS and ?s1.0 = s1 and ?r2.0 = r2 and ?s2.0 = s2 and ?s3.0 = s3
       and ?r4.0 = r4 and ?s4.0 = s4]
  from frame w r b t have all:
    "only_chip_select_differs (regs mcu0) (regs s1)"
    "only_chip_select_differs (regs mcu0) (regs s2)"
    "only_chip_select_differs (regs mcu0) (regs s3)"
    "only_chip_select_differs (regs mcu0) (regs s4)" by simp_all
  from all(1) have "regs s1 DDRB = regs mcu0 DDRB" "regs s1 SPCR = regs mcu0 SPCR"
    by (simp_all add: only_chip_select_differs_def)
  with all w r b t show ?thesis by blast
qed

text \<open>
  C1: evaluated on the simulated bus from the power-up state, with \<^verbatim>\<open>CNF3 = 0x28\<close> and
  \<^verbatim>\<open>PHSEG21 = 1\<close>: \<^verbatim>\<open>initController\<close> returns, and bit \<^verbatim>\<open>CHIP_SELECT\<close> of \<^verbatim>\<open>PORTB\<close>
  is 0 in the state it returns, so chip-select is still asserted; \<^verbatim>\<open>writeToRegister\<close>
  with the same three bytes returns with the bit at 1.
\<close>

theorem initController_returns_chip_selected:
  "(\<exists>r s'. initController sim_bus 0x28 1 mcu0 = Some (r, s')
       \<and> \<not> bit (regs s' PORTB) CHIP_SELECT)
   \<and> (\<exists>t. writeToRegister sim_bus 0x28 0x02 mcu0 = Some t
       \<and> bit (regs t PORTB) CHIP_SELECT)"
proof
  obtain r s' where init: "initController sim_bus 0x28 1 mcu0 = Some (r, s')"
    using initController_total [OF responsive_sim, of "0x28" 1 mcu0] by fastforce
  from initController_SomeD(1) [OF init] init
  show "\<exists>r s'. initController sim_bus 0x28 1 mcu0 = Some (r, s')
       \<and> \<not> bit (regs s' PORTB) CHIP_SELECT" by blast
next
  obtain t where wr: "writeToRegister sim_bus 0x28 0x02 mcu0 = Some t"
    using writeToRegister_total [OF responsive_sim, of "0x28" "0x02" mcu0] by blast
  from writeToRegister_SomeD [OF wr] have "bit (regs t PORTB) CHIP_SELECT"
    by (simp add: bit_simps CHIP_SELECT_def)
  with wr show "\<exists>t. writeToRegister sim_bus 0x28 0x02 mcu0 = Some t
       \<and> bit (regs t PORTB) CHIP_SELECT" by blast
qed

text \<open>
  C8: evaluated on the simulated bus from the power-up state, with \<^verbatim>\<open>CNF3 = 0x28\<close> and
  \<^verbatim>\<open>PHSEG21 = 1\<close>: the steps of \<^verbatim>\<open>initController\<close> come in the order of the claim, and
  the last thing it does is the third exchange of the configuration write; the store that
  drives chip-select high, which ends the same three exchanges in \<^verbatim>\<open>writeToRegister\<close>,
  is missing.
\<close>

theorem initController_trace_lacks_deselect:
  "(\<exists>r s' r0 r1 r2 r3. initController sim_bus 0x28 1 mcu0 = Some (r, s')
       \<and> trace s' =
         [Store PORTB 4, Store DDRB 4, Store PORTB 4, Store DDRB 0x34, Store DDRB 0x34,
          Store DDRD 0, Store PORTD 4, Store SPCR 0x51, Store_SPSR 0,
          Store PORTB 0, Exchange 0xC0 r0, Store PORTB 4, Delay_us 10,
          Store PORTB 0, Exchange 0x02 r1, Exchange 0x28 r2, Exchange 0x02 r3])
   \<and> (\<exists>t q1 q2 q3. writeToRegister sim_bus 0x28 0x02 mcu0 = Some t
       \<and> trace t =
         [Store PORTB 0, Exchange 0x02 q1, Exchange 0x28 q2, Exchange 0x02 q3,
          Store PORTB 4])"
proof
  obtain r s' where init: "initController sim_bus 0x28 1 mcu0 = Some (r, s')"
    using initController_total [OF responsive_sim, of "0x28" 1 mcu0] by fastforce
  from initController_SomeD(2) [OF init] obtain r0 r1 r2 r3 where
    "trace s' =
         [Store PORTB 4, Store DDRB 4, Store PORTB 4, Store DDRB 0x34, Store DDRB 0x34,
          Store DDRD 0, Store PORTD 4, Store SPCR 0x51, Store_SPSR 0,
          Store PORTB 0, Exchange 0xC0 r0, Store PORTB 4, Delay_us 10,
          Store PORTB 0, Exchange 0x02 r1, Exchange 0x28 r2, Exchange 0x02 r3]"
    by (auto simp: mcu0_regs mcu0_trace SPI_RESET_def SPI_WRITE_def)
  with init show "\<exists>r s' r0 r1 r2 r3. initController sim_bus 0x28 1 mcu0 = Some (r, s')
       \<and> trace s' =
         [Store PORTB 4, Store DDRB 4, Store PORTB 4, Store DDRB 0x34, Store DDRB 0x34,
          Store DDRD 0, Store PORTD 4, Store SPCR 0x51, Store_SPSR 0,
          Store PORTB 0, Exchange 0xC0 r0, Store PORTB 4, Delay_us 10,
          Store PORTB 0, Exchange 0x02 r1, Exchange 0x28 r2, Exchange 0x02 r3]" by blast
next
  obtain t where wr: "writeToRegister sim_bus 0x28 0x02 mcu0 = Some t"
    using writeToRegister_total [OF responsive_sim, of "0x28" "0x02" mcu0] by blast
  from writeToRegister_SomeD [OF wr] obtain q1 q2 q3 where
    "trace t = [Store PORTB 0, Exchange 0x02 q1, Exchange 0x28 q2, Exchange 0x02 q3,
          Store PORTB 4]"
    by (auto simp: mcu0_regs mcu0_trace SPI_WRITE_def CHIP_SELECT_def)
  with wr show "\<exists>t q1 q2 q3. writeToRegister sim_bus 0x28 0x02 mcu0 = Some t
       \<and> trace t =
         [Store PORTB 0, Exchange 0x02 q1, Exchange 0x28 q2, Exchange 0x02 q3,
          Store PORTB 4]" by blast
qed

text \<open>
  C2: evaluated on the simulated bus, with \<^verbatim>\<open>CNF3 = 0x28\<close> and \<^verbatim>\<open>PHSEG21 = 1\<close>:
  \<^verbatim>\<open>initController\<close> from the power-up state, then \<^verbatim>\<open>bitModify(0x0F, 0x0F, 0xA5)\<close>, then
  \<^verbatim>\<open>readRegister(0x0F)\<close>. The register holds 0 before \<^verbatim>\<open>bitModify\<close>, so the claim gives
  \<open>(0 AND NOT 0x0F) OR (0xA5 AND 0x0F) = 5\<close>; the read returns 0, because the chip still
  has the transaction of \<^verbatim>\<open>initController\<close> open and takes the four bytes of
  \<^verbatim>\<open>bitModify\<close> as more bytes of it.
\<close>

theorem bitModify_after_initController_lost:
  "\<exists>r0 s1 s2 s3.
     initController sim_bus 0x28 1 mcu0 = Some (r0, s1)
     \<and> cregs (chip (env s1)) 0x0F = 0
     \<and> bitModify sim_bus 0x0F 0x0F 0xA5 s1 = Some s2
     \<and> readRegister sim_bus 0x0F s2 = Some (0, s3)
     \<and> (cregs (chip (env s1)) 0x0F AND NOT 0x0F) OR (0xA5 AND 0x0F) = 5"
proof -
  from initController_mcu0 obtain r0 s1 where
    init: "initController sim_bus 0x28 1 mcu0 = Some (r0, s1)"
    and fin: "phase (chip (env s1)) = Finished"
    and regs1: "\<forall>a. cregs (chip (env s1)) a = (if a = 0x28 then 2 else 0)"
    by blast
  from bitModify_sim_finished [OF fin, of "0x0F" "0x0F" "0xA5"] obtain s2 where
    bm: "bitModify sim_bus 0x0F 0x0F 0xA5 s1 = Some s2" and
    c2: "chip (env s2) = (chip (env s1))\<lparr>phase := Deselected\<rparr>" by blast
  from c2 have "phase (chip (env s2)) = Deselected" by simp
  from readRegister_sim [OF this, of "0x0F"] obtain s3 where
    "readRegister sim_bus 0x0F s2 = Some (cregs (chip (env s2)) 0x0F, s3)" by blast
  then have rd: "readRegister sim_bus 0x0F s2 = Some (0, s3)" by (simp add: c2 regs1)
  have "cregs (chip (env s1)) 0x0F = 0" by (simp add: regs1)
  with init bm rd show ?thesis by auto
qed

text \<open>
  C3: evaluated on the simulated bus, with \<^verbatim>\<open>CNF3 = 0x28\<close> and \<^verbatim>\<open>PHSEG21 = 1\<close>:
  \<^verbatim>\<open>initController\<close> from the power-up state, then \<^verbatim>\<open>writeToRegister(0x28, 0x01)\<close>, then
  \<^verbatim>\<open>readRegister(0x28)\<close>. The read returns 2, the value \<^verbatim>\<open>initController\<close> wrote, not
  the 1 just written: the chip still has the transaction of \<^verbatim>\<open>initController\<close> open
  and takes the three bytes of \<^verbatim>\<open>writeToRegister\<close> as more bytes of it.
\<close>

theorem writeToRegister_after_initController_lost:
  "\<exists>r0 s1 s2 s3.
     initController sim_bus 0x28 1 mcu0 = Some (r0, s1)
     \<and> writeToRegister sim_bus 0x28 0x01 s1 = Some s2
     \<and> readRegister sim_bus 0x28 s2 = Some (0x02, s3)"
proof -
  from initController_mcu0 obtain r0 s1 where
    init: "initController sim_bus 0x28 1 mcu0 = Some (r0, s1)"
    and fin: "phase (chip (env s1)) = Finished"
    and regs1: "\<forall>a. cregs (chip (env s1)) a = (if a = 0x28 then 2 else 0)"
    by blast
  from writeToRegister_sim_finished [OF fin, of "0x28" "0x01"] obtain s2 where
    wr: "writeToRegister sim_bus 0x28 0x01 s1 = Some s2" and
    c2: "chip (env s2) = (chip (env s1))\<lparr>phase := Deselected\<rparr>" by blast
  from c2 have "phase (chip (env s2)) = Deselected" by simp
  from readRegister_sim [OF this, of "0x28"] obtain s3 where
    "readRegister sim_bus 0x28 s2 = Some (cregs (chip (env s2)) 0x28, s3)" by blast
  then have "readRegister sim_bus 0x28 s2 = Some (0x02, s3)" by (simp add: c2 regs1)
  with init wr show ?thesis by blast
qed

text \<open>
  C4: evaluated on the simulated bus, with \<^verbatim>\<open>CNF3 = 0x28\<close> and \<^verbatim>\<open>PHSEG21 = 1\<close>:
  \<^verbatim>\<open>initController\<close> from the power-up state, then \<^verbatim>\<open>readRegister(0x28)\<close>. The call
  makes the three exchanges of the claim (\<open>0x03\<close>, the address, \<open>0xFF\<close>) between its two
  stores to \<^verbatim>\<open>PORTB\<close> and returns the byte received in the third, but that byte is 0
  while the register holds 2: the chip still has the transaction of \<^verbatim>\<open>initController\<close>
  open and does not take \<open>0x03\<close> as an opcode.
\<close>

theorem readRegister_after_initController_wrong:
  "\<exists>r0 s1 s2 r1 r2.
     initController sim_bus 0x28 1 mcu0 = Some (r0, s1)
     \<and> cregs (chip (env s1)) 0x28 = 0x02
     \<and> readRegister sim_bus 0x28 s1 = Some (0, s2)
     \<and> trace s2 = trace s1 @
          [Store PORTB (regs s1 PORTB AND NOT (push_bit CHIP_SELECT 1)),
           Exchange 0x03 r1, Exchange 0x28 r2, Exchange 0xFF 0,
           Store PORTB (regs s1 PORTB OR push_bit CHIP_SELECT 1)]"
proof -
  from initController_mcu0 obtain r0 s1 where
    init: "initController sim_bus 0x28 1 mcu0 = Some (r0, s1)"
    and fin: "phase (chip (env s1)) = Finished"
    and regs1: "\<forall>a. cregs (chip (env s1)) a = (if a = 0x28 then 2 else 0)"
    by blast
  from readRegister_sim_finished [OF fin, of "0x28"] obtain s2 where
    rd: "readRegister sim_bus 0x28 s1 = Some (0, s2)" by blast
  from readRegister_SomeD [OF rd] obtain r1 r2 where
    "trace s2 = trace s1 @
          [Store PORTB (regs s1 PORTB AND NOT (push_bit CHIP_SELECT 1)),
           Exchange 0x03 r1, Exchange 0x28 r2, Exchange 0xFF 0,
           Store PORTB (regs s1 PORTB OR push_bit CHIP_SELECT 1)]"
    by (auto simp: SPI_READ_def FILLER_def)
  moreover have "cregs (chip (env s1)) 0x28 = 0x02" by (simp add: regs1)
  ultimately show ?thesis using init rd by blast
qed

text \<open>
  C5: evaluated on the simulated bus, with \<^verbatim>\<open>CNF3 = 0x28\<close> and \<^verbatim>\<open>PHSEG21 = 1\<close>:
  \<^verbatim>\<open>initController\<close> from the power-up state, then \<^verbatim>\<open>writeToRegister(0x28, 0x01)\<close>. The
  call makes the three exchanges of the claim (\<open>0x02\<close>, the address, the value) between
  its two stores to \<^verbatim>\<open>PORTB\<close>, but afterwards the register still holds 2, not 1: the
  chip still has the transaction of \<^verbatim>\<open>initController\<close> open and does not take \<open>0x02\<close>
  as an opcode.
\<close>

theorem writeToRegister_after_initController_ignored:
  "\<exists>r0 s1 s2 r1 r2 r3.
     initController sim_bus 0x28 1 mcu0 = Some (r0, s1)
     \<and> writeToRegister sim_bus 0x28 0x01 s1 = Some s2
     \<and> cregs (chip (env s2)) 0x28 = 0x02
     \<and> trace s2 = trace s1 @
          [Store PORTB (regs s1 PORTB AND NOT (push_bit CHIP_SELECT 1)),
           Exchange 0x02 r1, Exchange 0x28 r2, Exchange 0x01 r3,
           Store PORTB (regs s1 PORTB OR push_bit CHIP_SELECT 1)]"
proof -
  from initController_mcu0 obtain r0 s1 where
    init: "initController sim_bus 0x28 1 mcu0 = Some (r0, s1)"
    and fin: "phase (chip (env s1)) = Finished"
    and regs1: "\<forall>a. cregs (chip (env s1)) a = (if a = 0x28 then 2 else 0)"
    by blast
  from writeToRegister_sim_finished [OF fin, of "0x28" "0x01"] obtain s2 where
    wr: "writeToRegister sim_bus 0x28 0x01 s1 = Some s2" and
    c2: "chip (env s2) = (chip (env s1))\<lparr>phase := Deselected\<rparr>" by blast
  from writeToRegister_SomeD [OF wr] obtain r1 r2 r3 where
    "trace s2 = trace s1 @
          [Store PORTB (regs s1 PORTB AND NOT (push_bit CHIP_SELECT 1)),
           Exchange 0x02 r1, Exchange 0x28 r2, Exchange 0x01 r3,
           Store PORTB (regs s1 PORTB OR push_bit CHIP_SELECT 1)]"
    by (auto simp: SPI_WRITE_def)
  moreover have "cregs (chip (env s2)) 0x28 = 0x02" by (simp add: c2 regs1)
  ultimately show ?thesis using init wr by blast
qed



end
